theory Spec2Isabelle
  imports Complex_Main
begin

section \<open>Numbers and constants\<close>

text \<open>
  The controller computes on JavaScript numbers. They are modelled as real numbers:
  exact arithmetic, no rounding, no NaN and no infinities. Where the source divides,
  the theorems carry the hypothesis that the divisor is not zero.
\<close>

definition MIN_ZOOM_LEVEL :: real where
  "MIN_ZOOM_LEVEL = 1 / 1000"

definition MAX_ZOOM_LEVEL :: real where
  "MAX_ZOOM_LEVEL = 20"

definition SCROLL_LEVEL_STEP :: real where
  "SCROLL_LEVEL_STEP = 3 / 2"

definition SCROLL_ANIMATION_SPEED :: real where
  "SCROLL_ANIMATION_SPEED = 2"

definition JUMP_DURATION :: real where
  "JUMP_DURATION = 1 / 2"

definition JUMP_AMPLITUDE :: real where
  "JUMP_AMPLITUDE = 1 / 2"

definition HALF_PI :: real where
  "HALF_PI = pi / 2"

definition GRAVITY_y :: real where
  \<comment> \<open>the y component of \<open>GRAVITY = new THREE.Vector3(0.0, -9.81, 0.0)\<close>\<close>
  "GRAVITY_y = - (981 / 100)"

section \<open>utils/math.ts\<close>

definition lerp :: "real \<Rightarrow> real \<Rightarrow> real \<Rightarrow> real" where
  "lerp x y a = x * (1 - a) + y * a"

definition easeOutExpo :: "real \<Rightarrow> real" where
  "easeOutExpo x = (if x = 1 then 1 else 1 - 2 powr (- 10 * x))"

definition EaseOutCirc :: "real \<Rightarrow> real" where
  \<comment> \<open>\<open>Math.pow(x - 1.0, 2.0)\<close> is the square, also of a negative base\<close>
  "EaseOutCirc x = sqrt (1 - (x - 1)\<^sup>2)"

definition UpDownCirc :: "real \<Rightarrow> real" where
  "UpDownCirc x = sin (EaseOutCirc x * pi)"

definition clamp :: "real \<Rightarrow> real \<Rightarrow> real \<Rightarrow> real" where
  "clamp x a b = min (max x a) b"

section \<open>three.js vectors and quaternions\<close>

text \<open>
  \<open>THREE.Vector3\<close> and \<open>THREE.Quaternion\<close> with the operations the controller
  calls. The module-level scratch objects \<open>vec3_0\<close>, \<open>vec3_1\<close>, \<open>quaternion_0\<close>,
  \<open>quaternion_1\<close> and \<open>ray_0\<close> are written before they are read in every method that
  uses them, so they carry nothing from one call to the next and appear here as local
  values.
\<close>

record vec3 =
  vx :: real
  vy :: real
  vz :: real

record quat =
  quat_x :: real
  quat_y :: real
  quat_z :: real
  quat_w :: real

definition FORWARD :: vec3 where
  "FORWARD = \<lparr> vx = 0, vy = 0, vz = - 1 \<rparr>"

definition LEFT :: vec3 where
  "LEFT = \<lparr> vx = - 1, vy = 0, vz = 0 \<rparr>"

definition UP :: vec3 where
  "UP = \<lparr> vx = 0, vy = 1, vz = 0 \<rparr>"

definition RIGHT :: vec3 where
  "RIGHT = \<lparr> vx = 1, vy = 0, vz = 0 \<rparr>"

definition DOWN :: vec3 where
  "DOWN = \<lparr> vx = 0, vy = - 1, vz = 0 \<rparr>"

definition vec3_add :: "vec3 \<Rightarrow> vec3 \<Rightarrow> vec3" where
  "vec3_add a b = \<lparr> vx = vx a + vx b, vy = vy a + vy b, vz = vz a + vz b \<rparr>"

definition multiplyScalar :: "vec3 \<Rightarrow> real \<Rightarrow> vec3" where
  "multiplyScalar a k = \<lparr> vx = vx a * k, vy = vy a * k, vz = vz a * k \<rparr>"

definition vec3_length :: "vec3 \<Rightarrow> real" where
  "vec3_length a = sqrt (vx a * vx a + vy a * vy a + vz a * vz a)"

definition normalize :: "vec3 \<Rightarrow> vec3" where
  \<comment> \<open>\<open>divideScalar(length() || 1)\<close>: a zero vector stays as it is\<close>
  "normalize a =
     (let l = vec3_length a in multiplyScalar a (1 / (if l = 0 then 1 else l)))"

definition setFromAxisAngle :: "vec3 \<Rightarrow> real \<Rightarrow> quat" where
  "setFromAxisAngle axis angle =
     (let halfAngle = angle / 2; s = sin halfAngle
      in \<lparr> quat_x = vx axis * s, quat_y = vy axis * s, quat_z = vz axis * s,
           quat_w = cos halfAngle \<rparr>)"

definition quat_multiply :: "quat \<Rightarrow> quat \<Rightarrow> quat" where
  "quat_multiply a b =
     \<lparr> quat_x = quat_x a * quat_w b + quat_w a * quat_x b + quat_y a * quat_z b - quat_z a * quat_y b,
       quat_y = quat_y a * quat_w b + quat_w a * quat_y b + quat_z a * quat_x b - quat_x a * quat_z b,
       quat_z = quat_z a * quat_w b + quat_w a * quat_z b + quat_x a * quat_y b - quat_y a * quat_x b,
       quat_w = quat_w a * quat_w b - quat_x a * quat_x b - quat_y a * quat_y b - quat_z a * quat_z b \<rparr>"

definition applyQuaternion :: "vec3 \<Rightarrow> quat \<Rightarrow> vec3" where
  "applyQuaternion v q =
     (let ix = quat_w q * vx v + quat_y q * vz v - quat_z q * vy v;
          iy = quat_w q * vy v + quat_z q * vx v - quat_x q * vz v;
          iz = quat_w q * vz v + quat_x q * vy v - quat_y q * vx v;
          iw = - quat_x q * vx v - quat_y q * vy v - quat_z q * vz v
      in \<lparr> vx = ix * quat_w q + iw * - quat_x q + iy * - quat_z q - iz * - quat_y q,
           vy = iy * quat_w q + iw * - quat_y q + iz * - quat_x q - ix * - quat_z q,
           vz = iz * quat_w q + iw * - quat_z q + ix * - quat_y q - iy * - quat_x q \<rparr>)"

definition pointAt :: "vec3 \<Rightarrow> vec3 \<Rightarrow> real \<Rightarrow> vec3" where
  \<comment> \<open>\<open>Ray.pointAt(t)\<close> of a ray with the given origin and direction\<close>
  "pointAt origin dir t =
     \<lparr> vx = vx origin + vx dir * t, vy = vy origin + vy dir * t, vz = vz origin + vz dir * t \<rparr>"

definition js_rem :: "real \<Rightarrow> real \<Rightarrow> real" where
  \<comment> \<open>the \<open>%\<close> of JavaScript on numbers: the quotient is truncated towards zero\<close>
  "js_rem a b =
     a - b * of_int (if 0 \<le> a / b then \<lfloor>a / b\<rfloor> else \<lceil>a / b\<rceil>)"

section \<open>The engine the controller runs against\<close>

text \<open>
  The renderer and the physics world are not part of the controller. What the controller
  asks of them is a parameter of the model: the viewport size (\<open>useRenderSize\<close>), the ray
  cast of the physics world, and the orientation \<open>camera.lookAt\<close> gives a camera standing
  at a point and looking at a target. A ray cast receives the translation last given to
  the character's collider, the ray, the maximal distance, the \<open>solid\<close> flag and the
  filter, and answers with the distance of the hit (\<open>toi\<close>) or with no hit.
\<close>

datatype query_filter = NoFilter | ExcludeDynamicAndSelf

record engine =
  renderWidth :: real
  renderHeight :: real
  castRay :: "vec3 \<Rightarrow> vec3 \<Rightarrow> vec3 \<Rightarrow> real \<Rightarrow> bool \<Rightarrow> query_filter \<Rightarrow> real option"
  lookAt :: "vec3 \<Rightarrow> vec3 \<Rightarrow> quat"

section \<open>InputManager\<close>

definition KEYS_a :: string where "KEYS_a = ''KeyA''"
definition KEYS_s :: string where "KEYS_s = ''KeyS''"
definition KEYS_w :: string where "KEYS_w = ''KeyW''"
definition KEYS_d :: string where "KEYS_d = ''KeyD''"
definition KEYS_space :: string where "KEYS_space = ''Space''"
definition KEYS_shiftL :: string where "KEYS_shiftL = ''ShiftLeft''"
definition KEYS_shiftR :: string where "KEYS_shiftR = ''ShiftRight''"

record MouseState =
  leftButton :: bool
  rightButton :: bool
  mouseXDelta :: real
  mouseYDelta :: real
  mouseWheelDelta :: real

record InputManager =
  currentMouse :: MouseState
  currentKeys :: "string \<rightharpoonup> bool"
  pointerLocked :: bool

definition InputManager_new :: InputManager where
  "InputManager_new =
     \<lparr> currentMouse = \<lparr> leftButton = False, rightButton = False, mouseXDelta = 0,
                        mouseYDelta = 0, mouseWheelDelta = 0 \<rparr>,
       currentKeys = Map.empty, pointerLocked = False \<rparr>"

definition onMouseWheel :: "real \<Rightarrow> InputManager \<Rightarrow> InputManager" where
  "onMouseWheel deltaY im =
     (if pointerLocked im then
        (if deltaY < 0 then
           im\<lparr> currentMouse := (currentMouse im)
                 \<lparr> mouseWheelDelta :=
                     max (mouseWheelDelta (currentMouse im) - SCROLL_LEVEL_STEP) MIN_ZOOM_LEVEL \<rparr> \<rparr>
         else if deltaY > 0 then
           im\<lparr> currentMouse := (currentMouse im)
                 \<lparr> mouseWheelDelta :=
                     min (mouseWheelDelta (currentMouse im) + SCROLL_LEVEL_STEP) MAX_ZOOM_LEVEL \<rparr> \<rparr>
         else im)
      else im)"

definition onMouseMove :: "real \<Rightarrow> real \<Rightarrow> InputManager \<Rightarrow> InputManager" where
  "onMouseMove movementX movementY im =
     (if pointerLocked im
      then im\<lparr> currentMouse := (currentMouse im)
                \<lparr> mouseXDelta := movementX, mouseYDelta := movementY \<rparr> \<rparr>
      else im)"

definition setButton :: "int \<Rightarrow> bool \<Rightarrow> InputManager \<Rightarrow> InputManager" where
  \<comment> \<open>the \<open>switch (e.button)\<close> of \<open>onMouseDown\<close> and \<open>onMouseUp\<close>\<close>
  "setButton button pressed im =
     (if button = 0 then im\<lparr> currentMouse := (currentMouse im)\<lparr> leftButton := pressed \<rparr> \<rparr>
      else if button = 2 then im\<lparr> currentMouse := (currentMouse im)\<lparr> rightButton := pressed \<rparr> \<rparr>
      else im)"

definition onMouseDown :: "int \<Rightarrow> real \<Rightarrow> real \<Rightarrow> InputManager \<Rightarrow> InputManager" where
  "onMouseDown button movementX movementY im =
     (if pointerLocked im then setButton button True (onMouseMove movementX movementY im) else im)"

definition onMouseUp :: "int \<Rightarrow> real \<Rightarrow> real \<Rightarrow> InputManager \<Rightarrow> InputManager" where
  "onMouseUp button movementX movementY im =
     (if pointerLocked im then setButton button False (onMouseMove movementX movementY im) else im)"

definition onKeyDown :: "string \<Rightarrow> InputManager \<Rightarrow> InputManager" where
  "onKeyDown code im = (if pointerLocked im then im\<lparr> currentKeys := (currentKeys im)(code \<mapsto> True) \<rparr> else im)"

definition onKeyUp :: "string \<Rightarrow> InputManager \<Rightarrow> InputManager" where
  "onKeyUp code im = (if pointerLocked im then im\<lparr> currentKeys := (currentKeys im)(code \<mapsto> False) \<rparr> else im)"

definition setPointerLocked :: "bool \<Rightarrow> InputManager \<Rightarrow> InputManager" where
  \<comment> \<open>the \<open>pointerlockchange\<close> listener; the argument says whether the canvas holds the lock\<close>
  "setPointerLocked locked im = im\<lparr> pointerLocked := locked \<rparr>"

datatype input_event =
    Wheel real
  | MouseMove real real
  | MouseDown int real real
  | MouseUp int real real
  | KeyDown string
  | KeyUp string
  | PointerLockChange bool

fun dispatch :: "InputManager \<Rightarrow> input_event \<Rightarrow> InputManager" where
  "dispatch im (Wheel deltaY) = onMouseWheel deltaY im"
| "dispatch im (MouseMove mx my) = onMouseMove mx my im"
| "dispatch im (MouseDown b mx my) = onMouseDown b mx my im"
| "dispatch im (MouseUp b mx my) = onMouseUp b mx my im"
| "dispatch im (KeyDown code) = onKeyDown code im"
| "dispatch im (KeyUp code) = onKeyUp code im"
| "dispatch im (PointerLockChange locked) = setPointerLocked locked im"

definition events_run :: "InputManager \<Rightarrow> input_event list \<Rightarrow> InputManager" where
  "events_run im evs = foldl dispatch im evs"

definition isKeyDown :: "InputManager \<Rightarrow> string \<Rightarrow> bool" where
  "isKeyDown im keyCode = (pointerLocked im \<and> currentKeys im keyCode = Some True)"

definition InputManager_update :: "InputManager \<Rightarrow> InputManager" where
  "InputManager_update im =
     im\<lparr> currentMouse := (currentMouse im)\<lparr> mouseXDelta := 0, mouseYDelta := 0 \<rparr> \<rparr>"

definition runActionByKey :: "InputManager \<Rightarrow> string \<Rightarrow> 'a \<Rightarrow> 'a \<Rightarrow> 'a" where
  "runActionByKey im key action inAction = (if isKeyDown im key then action else inAction)"

fun checkOneKey :: "InputManager \<Rightarrow> string list \<Rightarrow> bool" where
  "checkOneKey im [] = False"
| "checkOneKey im (key # keys) = (if isKeyDown im key then True else checkOneKey im keys)"

definition runActionByOneKey :: "InputManager \<Rightarrow> string list \<Rightarrow> 'a \<Rightarrow> 'a \<Rightarrow> 'a" where
  "runActionByOneKey im keys action inAction = (if checkOneKey im keys then action else inAction)"

section \<open>ZoomController\<close>

record ZoomController =
  zoom :: real
  lastZoomLevel :: real
  startZoomAnimation :: real
  zoomIsAnimating :: bool
  startingZoom :: real

definition ZoomController_new :: ZoomController where
  "ZoomController_new =
     \<lparr> zoom = MIN_ZOOM_LEVEL, lastZoomLevel = 0, startZoomAnimation = 0,
       zoomIsAnimating = False, startingZoom = 0 \<rparr>"

definition ZoomController_update :: "real \<Rightarrow> real \<Rightarrow> real \<Rightarrow> ZoomController \<Rightarrow> ZoomController" where
  "ZoomController_update zoomLevel timestamp timeDiff zc =
     (let time = timestamp * SCROLL_ANIMATION_SPEED;
          zlClamped = clamp zoomLevel MIN_ZOOM_LEVEL MAX_ZOOM_LEVEL;
          zoomLevelHasChanged = (lastZoomLevel zc \<noteq> zoomLevel);
          zc1 = (if zoomLevelHasChanged
                 then zc\<lparr> startingZoom := zoom zc, startZoomAnimation := time,
                          zoomIsAnimating := True \<rparr>
                 else zc);
          zc2 = (if zoomIsAnimating zc1
                 then (let progress = time - startZoomAnimation zc1;
                           zc1a = zc1\<lparr> zoom := lerp (startingZoom zc1) zlClamped (easeOutExpo progress) \<rparr>
                       in if progress \<ge> 1 then zc1a\<lparr> zoomIsAnimating := False \<rparr> else zc1a)
                 else zc1)
      in zc2\<lparr> lastZoomLevel := zoomLevel \<rparr>)"

text \<open>A call of \<open>update\<close>: the target zoom level, the timestamp and the frame time.\<close>

type_synonym zoom_call = "real \<times> real \<times> real"

fun zoom_run :: "ZoomController \<Rightarrow> zoom_call list \<Rightarrow> ZoomController" where
  "zoom_run zc [] = zc"
| "zoom_run zc ((zoomLevel, timestamp, timeDiff) # cs) =
     zoom_run (ZoomController_update zoomLevel timestamp timeDiff zc) cs"

section \<open>HeadBobController\<close>

record HeadBobController =
  headBobTimer :: real
  headBobAmount :: real
  lastHeadBobDiff :: real
  headBobActive :: bool

definition HeadBobController_new :: HeadBobController where
  "HeadBobController_new =
     \<lparr> headBobTimer = 0, headBobAmount = 0, lastHeadBobDiff = 0, headBobActive = False \<rparr>"

definition HEAD_BOB_DURATION :: real where
  "HEAD_BOB_DURATION = 1 / 10"

definition HEAD_BOB_FREQUENCY :: real where
  "HEAD_BOB_FREQUENCY = 8 / 10"

definition HEAD_BOB_AMPLITUDE :: real where
  "HEAD_BOB_AMPLITUDE = 3 / 10"

definition getHeadBob :: "real \<Rightarrow> bool \<Rightarrow> HeadBobController \<Rightarrow> real \<times> HeadBobController" where
  "getHeadBob timeDiff isMoving hb =
     (let hb1 = (if \<not> headBobActive hb then hb\<lparr> headBobActive := isMoving \<rparr> else hb);
          hb2 = (if headBobActive hb1 then
                   (let STEP = pi;
                        currentAmount = headBobTimer hb1 * HEAD_BOB_FREQUENCY * (1 / HEAD_BOB_DURATION);
                        headBobDiff = js_rem currentAmount STEP;
                        hb1a = hb1\<lparr> headBobTimer := headBobTimer hb1 + timeDiff,
                                   headBobAmount := sin currentAmount * HEAD_BOB_AMPLITUDE \<rparr>;
                        hb1b = (if headBobDiff < lastHeadBobDiff hb1a
                                then hb1a\<lparr> headBobActive := False \<rparr> else hb1a)
                    in hb1b\<lparr> lastHeadBobDiff := headBobDiff \<rparr>)
                 else hb1)
      in (headBobAmount hb2, hb2))"

section \<open>HeightController\<close>

record HeightController =
  height :: real
  lastHeight :: real
  movePerFrame :: real
  lastGroundHeight :: real
  startFallAnimation :: real
  fallIsAnimating :: bool
  grounded :: bool
  jumpFactor :: real
  startJumpAnimation :: real

definition HeightController_new :: HeightController where
  "HeightController_new =
     \<lparr> height = 0, lastHeight = 0, movePerFrame = 0, lastGroundHeight = 0,
       startFallAnimation = 0, fallIsAnimating = False, grounded = False, jumpFactor = 0,
       startJumpAnimation = 0 \<rparr>"

definition HeightController_update :: "real \<Rightarrow> real \<Rightarrow> HeightController \<Rightarrow> HeightController" where
  "HeightController_update timestamp timeDiff hc =
     (let hc0 = hc\<lparr> fallIsAnimating := \<not> grounded hc \<rparr>;
          hc1 = (if fallIsAnimating hc0 then
                   (let t = timestamp - startFallAnimation hc0;
                        hc0a = hc0\<lparr> height := (1 / 2) * GRAVITY_y * t * t \<rparr>
                    in hc0a\<lparr> movePerFrame := height hc0a - lastHeight hc0a \<rparr>)
                 else hc0\<lparr> height := 0, lastHeight := 0, movePerFrame := 0,
                           startFallAnimation := timestamp \<rparr>);
          jt = timestamp - startJumpAnimation hc1;
          hc2 = (if grounded hc1 \<and> jt > JUMP_DURATION
                 then hc1\<lparr> jumpFactor := 0, startJumpAnimation := timestamp \<rparr>
                 else hc1\<lparr> movePerFrame := movePerFrame hc1
                              + lerp 0 (jumpFactor hc1 * JUMP_AMPLITUDE)
                                  (UpDownCirc (clamp (jt / JUMP_DURATION) 0 1)) \<rparr>)
      in hc2\<lparr> lastHeight := height hc2 \<rparr>)"

definition setGrounded :: "bool \<Rightarrow> HeightController \<Rightarrow> HeightController" where
  "setGrounded g hc = hc\<lparr> grounded := g \<rparr>"

definition setJumpFactor :: "real \<Rightarrow> HeightController \<Rightarrow> HeightController" where
  "setJumpFactor j hc = hc\<lparr> jumpFactor := j \<rparr>"

section \<open>CharacterController\<close>

text \<open>
  The state of a \<open>CharacterController\<close>: its own fields, the position and quaternion it
  inherits from \<open>THREE.Mesh\<close>, the camera it drives, the translation it last gave to the
  collider of its physics object, and the size of the avatar that owns it. The fields
  \<open>objects\<close> and \<open>startZoomAnimation\<close> of the class are never read and are left out.
\<close>

record Camera =
  cameraPosition :: vec3
  cameraQuaternion :: quat

record CharacterController =
  position :: vec3
  quaternion :: quat
  camera :: Camera
  inputManager :: InputManager
  headBobController :: HeadBobController
  heightController :: HeightController
  phi :: real
  theta :: real
  isMoving2D :: bool
  zoomController :: ZoomController
  colliderTranslation :: vec3
  avatarHeight :: real
  avatarWidth :: real

definition CharacterController_new :: "vec3 \<Rightarrow> real \<Rightarrow> real \<Rightarrow> Camera \<Rightarrow> CharacterController" where
  \<comment> \<open>the constructor, for an avatar at the given position with the given height and width\<close>
  "CharacterController_new avatarPosition h w cam =
     \<lparr> position = avatarPosition,
       quaternion = \<lparr> quat_x = 0, quat_y = 0, quat_z = 0, quat_w = 1 \<rparr>,
       camera = cam,
       inputManager = InputManager_new,
       headBobController = HeadBobController_new,
       heightController = HeightController_new,
       phi = 0, theta = 0, isMoving2D = False,
       zoomController = ZoomController_new,
       colliderTranslation = avatarPosition,
       avatarHeight = h, avatarWidth = w \<rparr>"

text \<open>
  \<open>updateRotation\<close> divides the mouse deltas by the viewport size. The definition below is
  the method for a viewport of non-zero width and height; every theorem that runs it
  assumes such a viewport.
\<close>

definition updateRotation :: "engine \<Rightarrow> CharacterController \<Rightarrow> CharacterController" where
  "updateRotation eng s =
     (let xh = mouseXDelta (currentMouse (inputManager s)) / renderWidth eng;
          yh = mouseYDelta (currentMouse (inputManager s)) / renderHeight eng;
          PHI_SPEED = 5 / 2;
          THETA_SPEED = 5 / 2;
          phi1 = phi s + - xh * PHI_SPEED;
          theta1 = clamp (theta s + - yh * THETA_SPEED) (- pi / 2) (pi / 2)
      in s\<lparr> phi := phi1, theta := theta1,
            quaternion := quat_multiply (setFromAxisAngle UP phi1) (setFromAxisAngle RIGHT theta1) \<rparr>)"

definition shiftSpeedUpAction :: "InputManager \<Rightarrow> real" where
  "shiftSpeedUpAction im = runActionByOneKey im [KEYS_shiftL, KEYS_shiftR] 5 1"

definition updateTranslation :: "real \<Rightarrow> CharacterController \<Rightarrow> CharacterController" where
  "updateTranslation timeDiff s =
     (let timeDiff_d10 = timeDiff * 10;
          im = inputManager s;
          forwardVelocity = runActionByKey im KEYS_w (shiftSpeedUpAction im) 0
                          - runActionByKey im KEYS_s (shiftSpeedUpAction im) 0;
          sideVelocity = runActionByKey im KEYS_a (shiftSpeedUpAction im) 0
                       - runActionByKey im KEYS_d (shiftSpeedUpAction im) 0;
          q = setFromAxisAngle UP (phi s + HALF_PI);
          v0 = multiplyScalar (applyQuaternion FORWARD q) (forwardVelocity * timeDiff_d10);
          v1 = multiplyScalar (applyQuaternion LEFT q) (sideVelocity * timeDiff_d10);
          p1 = vec3_add (vec3_add (position s) v0) v1;
          elevationFactor = runActionByKey im KEYS_space 1 0;
          hc = (if grounded (heightController s)
                then setJumpFactor elevationFactor (heightController s)
                else heightController s);
          p2 = p1\<lparr> vy := vy p1 + movePerFrame hc \<rparr>
      in s\<lparr> position := p2, heightController := hc,
            isMoving2D := (forwardVelocity \<noteq> 0 \<or> sideVelocity \<noteq> 0) \<rparr>)"

definition updateGravity :: "real \<Rightarrow> real \<Rightarrow> CharacterController \<Rightarrow> CharacterController" where
  "updateGravity timestamp timeDiff s =
     s\<lparr> heightController := HeightController_update timestamp timeDiff (heightController s) \<rparr>"

definition detectGround :: "engine \<Rightarrow> CharacterController \<Rightarrow> CharacterController" where
  "detectGround eng s =
     (let avatarHalfHeight = avatarHeight s / 2;
          colliderPosition = position s;
          s1 = s\<lparr> colliderTranslation := colliderPosition \<rparr>;
          rayOrigin = (position s1)\<lparr> vy := vy (position s1) - avatarHalfHeight \<rparr>
      in case castRay eng (colliderTranslation s1) rayOrigin DOWN 1000 True ExcludeDynamicAndSelf of
           Some toi \<Rightarrow>
             (let hitPoint = pointAt rayOrigin DOWN toi;
                  distance = vy rayOrigin - vy hitPoint
              in if distance \<le> 0
                 then s1\<lparr> heightController := setGrounded True (heightController s1) \<rparr>
                 else s1\<lparr> heightController :=
                           setGrounded False
                             ((heightController s1)\<lparr> lastGroundHeight := vy hitPoint + avatarHalfHeight \<rparr>) \<rparr>)
         | None \<Rightarrow>
             (case castRay eng (colliderTranslation s1) rayOrigin UP (avatarHeight s1 / 2) True
                     ExcludeDynamicAndSelf of
                Some toi \<Rightarrow>
                  s1\<lparr> position := (position s1)\<lparr> vy := lastGroundHeight (heightController s1) \<rparr>,
                      heightController := setGrounded True (heightController s1) \<rparr>
              | None \<Rightarrow> s1\<lparr> heightController := setGrounded False (heightController s1) \<rparr>))"

definition updateZoom :: "real \<Rightarrow> real \<Rightarrow> CharacterController \<Rightarrow> CharacterController" where
  "updateZoom timestamp timeDiff s =
     s\<lparr> zoomController :=
          ZoomController_update (mouseWheelDelta (currentMouse (inputManager s))) timestamp timeDiff
            (zoomController s) \<rparr>"

definition updateCamera :: "engine \<Rightarrow> real \<Rightarrow> real \<Rightarrow> CharacterController \<Rightarrow> CharacterController" where
  "updateCamera eng timestamp timeDiff s =
     (let circleRadius = zoom (zoomController s);
          cameraOffset = \<lparr> vx = circleRadius * cos (- phi s),
                           vy = circleRadius * cos (theta s + HALF_PI),
                           vz = circleRadius * sin (- phi s) \<rparr>;
          camPos = vec3_add (position s) cameraOffset;
          cam1 = \<lparr> cameraPosition = camPos, cameraQuaternion = lookAt eng camPos (position s) \<rparr>;
          isFirstPerson = (zoom (zoomController s) \<le> avatarWidth s)
      in if isFirstPerson then
           (let (bob, hb) = getHeadBob timeDiff (isMoving2D s) (headBobController s);
                camPos2 = camPos\<lparr> vy := vy camPos + bob \<rparr>;
                cam2 = cam1\<lparr> cameraPosition := camPos2 \<rparr>;
                rayOrigin = camPos2;
                rayDirection = normalize (applyQuaternion \<lparr> vx = 0, vy = 0, vz = - 1 \<rparr> (cameraQuaternion cam2));
                cam3 = (case castRay eng (colliderTranslation s) rayOrigin rayDirection 1000 False NoFilter of
                          Some toi \<Rightarrow>
                            cam2\<lparr> cameraQuaternion :=
                                    lookAt eng camPos2 (pointAt rayOrigin rayDirection toi) \<rparr>
                        | None \<Rightarrow> cam2)
            in s\<lparr> camera := cam3, headBobController := hb \<rparr>)
         else s\<lparr> camera := cam1 \<rparr>)"

definition CharacterController_update :: "engine \<Rightarrow> real \<Rightarrow> real \<Rightarrow> CharacterController \<Rightarrow> CharacterController" where
  "CharacterController_update eng timestamp timeDiff s =
     (let s1 = updateRotation eng s;
          s2 = updateTranslation timeDiff s1;
          s3 = updateGravity timestamp timeDiff s2;
          s4 = detectGround eng s3;
          s5 = updateZoom timestamp timeDiff s4;
          s6 = updateCamera eng timestamp timeDiff s5
      in s6\<lparr> inputManager := InputManager_update (inputManager s6) \<rparr>)"

text \<open>
  A run of \<open>updateRotation\<close> calls: before each call the input manager holds whatever
  the mouse events since the last call left in it, and the engine reports the viewport size
  of the moment.
\<close>

fun rotation_run :: "CharacterController \<Rightarrow> (engine \<times> InputManager) list \<Rightarrow> CharacterController" where
  "rotation_run s [] = s"
| "rotation_run s ((eng, im) # cs) = rotation_run (updateRotation eng (s\<lparr> inputManager := im \<rparr>)) cs"

section \<open>physics.ts: addPhysics\<close>













section \<open>Invariants and concrete inputs\<close>

text \<open>The invariant of the zoom animation at a timestamp, and the range of the scroll value.\<close>

definition zoom_inv :: "ZoomController \<Rightarrow> real \<Rightarrow> bool" where
  "zoom_inv zc t \<longleftrightarrow>
     MIN_ZOOM_LEVEL \<le> zoom zc \<and> zoom zc \<le> MAX_ZOOM_LEVEL \<and>
     (zoomIsAnimating zc \<longrightarrow>
        MIN_ZOOM_LEVEL \<le> startingZoom zc \<and> startingZoom zc \<le> MAX_ZOOM_LEVEL \<and>
        startZoomAnimation zc \<le> t * SCROLL_ANIMATION_SPEED)"

definition wheel_ok :: "InputManager \<Rightarrow> bool" where
  "wheel_ok im \<longleftrightarrow> MIN_ZOOM_LEVEL \<le> mouseWheelDelta (currentMouse im)
                 \<and> mouseWheelDelta (currentMouse im) \<le> MAX_ZOOM_LEVEL"

text \<open>
  Two engines for the examples: a world with a ground plane at height 0, which a vertical
  ray hits from above or from below within its maximal distance, and a world with nothing
  in it. Both report an 800 by 600 viewport.
\<close>

definition flat_ground :: engine where
  "flat_ground =
     \<lparr> renderWidth = 800, renderHeight = 600,
       castRay = (\<lambda>c origin dir maxToi solid f.
          if vy dir < 0 \<and> 0 \<le> vy origin \<and> vy origin \<le> maxToi then Some (vy origin)
          else if vy dir > 0 \<and> vy origin < 0 \<and> - vy origin \<le> maxToi then Some (- vy origin)
          else None),
       lookAt = (\<lambda>eye target. \<lparr> quat_x = 0, quat_y = 0, quat_z = 0, quat_w = 1 \<rparr>) \<rparr>"

definition empty_world :: engine where
  "empty_world =
     \<lparr> renderWidth = 800, renderHeight = 600,
       castRay = (\<lambda>c origin dir maxToi solid f. None),
       lookAt = (\<lambda>eye target. \<lparr> quat_x = 0, quat_y = 0, quat_z = 0, quat_w = 1 \<rparr>) \<rparr>"

definition camera_example :: Camera where
  "camera_example = \<lparr> cameraPosition = \<lparr> vx = 0, vy = 0, vz = 0 \<rparr>,
                      cameraQuaternion = \<lparr> quat_x = 0, quat_y = 0, quat_z = 0, quat_w = 1 \<rparr> \<rparr>"

definition character_at :: "real \<Rightarrow> CharacterController" where
  \<comment> \<open>a freshly constructed controller for an avatar of height 2 and width 1 at height \<open>y\<close>\<close>
  "character_at y = CharacterController_new \<lparr> vx = 0, vy = y, vz = 0 \<rparr> 2 1 camera_example"

definition sunk_character :: CharacterController where
  \<comment> \<open>a controller that stood on the plane (centre at height 1) and is now half below it\<close>
  "sunk_character =
     (character_at 0)\<lparr> heightController := HeightController_new\<lparr> lastGroundHeight := 1 \<rparr> \<rparr>"

definition falling_character :: CharacterController where
  \<comment> \<open>a controller at height 10 whose last vertical motion step left the delta -0.1\<close>
  "falling_character =
     (character_at 10)\<lparr> heightController := HeightController_new\<lparr> movePerFrame := - (1 / 10) \<rparr> \<rparr>"

definition mouse_moved :: "real \<Rightarrow> real \<Rightarrow> InputManager" where
  \<comment> \<open>the input manager after a mouse move by the given deltas\<close>
  "mouse_moved dx dy =
     InputManager_new\<lparr> currentMouse := (currentMouse InputManager_new)
                         \<lparr> mouseXDelta := dx, mouseYDelta := dy \<rparr> \<rparr>"




section \<open>Helper facts about the math utilities\<close>

lemma easeOutExpo_zero: "easeOutExpo 0 = 0"
  by (simp add: easeOutExpo_def)

lemma lerp_zero: "lerp x y 0 = x"
  by (simp add: lerp_def)

lemma lerp_from_zero: "lerp 0 y a = y * a"
  by (simp add: lerp_def)

lemma easeOutExpo_range: "0 \<le> p \<Longrightarrow> 0 \<le> easeOutExpo p \<and> easeOutExpo p \<le> 1"
proof -
  assume p: "0 \<le> p"
  have "2 powr (- 10 * p) \<le> (1::real)"
    using powr_mono [of "- 10 * p" 0 2] p by simp
  moreover have "0 \<le> (2::real) powr (- 10 * p)" by simp
  ultimately show ?thesis by (simp add: easeOutExpo_def)
qed

lemma lerp_between:
  assumes "0 \<le> a" "a \<le> 1" "lo \<le> x" "x \<le> hi" "lo \<le> y" "y \<le> hi"
  shows "lo \<le> lerp x y a \<and> lerp x y a \<le> hi"
proof -
  have a1: "0 \<le> 1 - a" using assms by simp
  have "lo * (1 - a) + lo * a \<le> x * (1 - a) + y * a"
    using assms a1 by (intro add_mono mult_right_mono) auto
  moreover have "x * (1 - a) + y * a \<le> hi * (1 - a) + hi * a"
    using assms a1 by (intro add_mono mult_right_mono) auto
  moreover have "lo * (1 - a) + lo * a = lo" "hi * (1 - a) + hi * a = hi"
    by (simp_all add: algebra_simps)
  ultimately show ?thesis by (simp add: lerp_def)
qed

lemma clamp_range: "a \<le> b \<Longrightarrow> a \<le> clamp x a b \<and> clamp x a b \<le> b"
  by (simp add: clamp_def)

lemmas zoom_consts = MIN_ZOOM_LEVEL_def MAX_ZOOM_LEVEL_def SCROLL_LEVEL_STEP_def

section \<open>HeightController: the grounded update\<close>

text \<open>
  C1, as the claim states it, fails. A grounded controller whose jump factor is 1 and
  whose jump started 0.2 s ago leaves \<open>update\<close> with \<open>movePerFrame = sin (0.8 \<pi>) / 2\<close>,
  which is not zero: the jump offset is added after the gravity part was reset.
\<close>

theorem grounded_update_jump_moves:
  "movePerFrame (HeightController_update (1 / 5) (1 / 60)
       (HeightController_new\<lparr> grounded := True, jumpFactor := 1 \<rparr>)) = sin (4 / 5 * pi) / 2
   \<and> movePerFrame (HeightController_update (1 / 5) (1 / 60)
       (HeightController_new\<lparr> grounded := True, jumpFactor := 1 \<rparr>)) \<noteq> 0"
proof -
  have sq: "sqrt (16 / 25) = (4 / 5 :: real)"
    by (rule real_sqrt_unique) (simp_all add: power2_eq_square)
  have e: "EaseOutCirc (2 / 5) = 4 / 5"
    using sq by (simp add: EaseOutCirc_def power2_eq_square)
  have m: "movePerFrame (HeightController_update (1 / 5) (1 / 60)
       (HeightController_new\<lparr> grounded := True, jumpFactor := 1 \<rparr>)) = sin (4 / 5 * pi) / 2"
    by (simp add: HeightController_update_def HeightController_new_def Let_def lerp_from_zero
        JUMP_DURATION_def JUMP_AMPLITUDE_def clamp_def UpDownCirc_def e)
  have "0 < sin (4 / 5 * pi)"
    by (rule sin_gt_zero) (simp_all add: pi_gt_zero)
  with m show ?thesis by simp
qed

text \<open>
  C1, amended. For every timestamp \<open>t\<close> and frame time \<open>dt\<close>, \<open>update\<close> on a grounded
  controller resets the gravity part (height and last height are 0) and the fall timer
  (\<open>startFallAnimation = t\<close>), and \<open>movePerFrame\<close> is the jump offset alone: 0 when more
  than \<open>JUMP_DURATION\<close> has passed since the jump started, and otherwise the jump factor
  times the amplitude times the up-down curve at the clamped jump progress. In the first
  case the jump is reset (\<open>jumpFactor = 0\<close>, \<open>startJumpAnimation = t\<close>), in the second
  the jump factor and the start of the jump stay as they are. The fall animation is off,
  and the grounded flag and the last ground height are not touched.
\<close>

theorem grounded_update_resets_fall:
  assumes "grounded hc"
  shows "startFallAnimation (HeightController_update t dt hc) = t
       \<and> height (HeightController_update t dt hc) = 0
       \<and> lastHeight (HeightController_update t dt hc) = 0
       \<and> movePerFrame (HeightController_update t dt hc)
           = (if t - startJumpAnimation hc > JUMP_DURATION then 0
              else jumpFactor hc * JUMP_AMPLITUDE
                   * UpDownCirc (clamp ((t - startJumpAnimation hc) / JUMP_DURATION) 0 1))
       \<and> jumpFactor (HeightController_update t dt hc)
           = (if t - startJumpAnimation hc > JUMP_DURATION then 0 else jumpFactor hc)
       \<and> startJumpAnimation (HeightController_update t dt hc)
           = (if t - startJumpAnimation hc > JUMP_DURATION then t else startJumpAnimation hc)
       \<and> fallIsAnimating (HeightController_update t dt hc) = False
       \<and> grounded (HeightController_update t dt hc) = True
       \<and> lastGroundHeight (HeightController_update t dt hc) = lastGroundHeight hc"
  using assms
  by (simp add: HeightController_update_def Let_def lerp_from_zero)

theorem grounded_update_resets_fall_witness:
  "grounded (HeightController_new\<lparr> grounded := True, jumpFactor := 1 \<rparr>)
   \<and> startFallAnimation (HeightController_update 3 (1 / 60)
        (HeightController_new\<lparr> grounded := True, jumpFactor := 1 \<rparr>)) = 3
   \<and> movePerFrame (HeightController_update 3 (1 / 60)
        (HeightController_new\<lparr> grounded := True, jumpFactor := 1 \<rparr>)) = 0
   \<and> jumpFactor (HeightController_update 3 (1 / 60)
        (HeightController_new\<lparr> grounded := True, jumpFactor := 1 \<rparr>)) = 0
   \<and> startJumpAnimation (HeightController_update 3 (1 / 60)
        (HeightController_new\<lparr> grounded := True, jumpFactor := 1 \<rparr>)) = 3
   \<and> jumpFactor (HeightController_update (1 / 5) (1 / 60)
        (HeightController_new\<lparr> grounded := True, jumpFactor := 1 \<rparr>)) = 1
   \<and> startJumpAnimation (HeightController_update (1 / 5) (1 / 60)
        (HeightController_new\<lparr> grounded := True, jumpFactor := 1 \<rparr>)) = 0"
  using grounded_update_resets_fall [of "HeightController_new\<lparr> grounded := True, jumpFactor := 1 \<rparr>" "1 / 5" "1 / 60"]
        grounded_update_resets_fall [of "HeightController_new\<lparr> grounded := True, jumpFactor := 1 \<rparr>" 3 "1 / 60"]
  by (simp add: HeightController_new_def JUMP_DURATION_def)

section \<open>Ground detection\<close>

text \<open>
  C3. \<open>detectGround\<close> casts a ray down from the foot of the avatar. A hit at a
  non-positive distance sets grounded; a hit at a positive distance clears grounded and
  records the height of the hit point plus the half height of the avatar as the last ground
  height; with no hit below, a hit of the second ray, cast upwards from the same origin,
  puts \<open>position.y\<close> at the last ground height and sets grounded; with no hit at all
  grounded is cleared.
\<close>

theorem detectGround_cases:
  "(let foot = (position s)\<lparr> vy := vy (position s) - avatarHeight s / 2 \<rparr>;
        down = castRay eng (position s) foot DOWN 1000 True ExcludeDynamicAndSelf;
        up = castRay eng (position s) foot UP (avatarHeight s / 2) True ExcludeDynamicAndSelf;
        s' = detectGround eng s
    in (down = Some toi \<and> vy foot - vy (pointAt foot DOWN toi) \<le> 0 \<longrightarrow>
            grounded (heightController s'))
     \<and> (down = Some toi \<and> 0 < vy foot - vy (pointAt foot DOWN toi) \<longrightarrow>
            \<not> grounded (heightController s')
            \<and> lastGroundHeight (heightController s') = vy (pointAt foot DOWN toi) + avatarHeight s / 2)
     \<and> (down = None \<and> up \<noteq> None \<longrightarrow>
            vy (position s') = lastGroundHeight (heightController s)
            \<and> grounded (heightController s'))
     \<and> (down = None \<and> up = None \<longrightarrow> \<not> grounded (heightController s')))"
  by (auto simp add: detectGround_def Let_def setGrounded_def split: option.splits)

theorem detectGround_cases_witness:
  "grounded (heightController (detectGround flat_ground (character_at 1)))
   \<and> \<not> grounded (heightController (detectGround flat_ground (character_at 3)))
   \<and> lastGroundHeight (heightController (detectGround flat_ground (character_at 3))) = 1
   \<and> vy (position (detectGround flat_ground sunk_character)) = 1
   \<and> grounded (heightController (detectGround flat_ground sunk_character))
   \<and> \<not> grounded (heightController (detectGround flat_ground (character_at (- 5))))"
  using detectGround_cases [of "character_at 1" flat_ground 0]
        detectGround_cases [of "character_at 3" flat_ground 2]
        detectGround_cases [of sunk_character flat_ground]
        detectGround_cases [of "character_at (- 5)" flat_ground]
  by (simp add: Let_def flat_ground_def character_at_def sunk_character_def CharacterController_new_def
      HeightController_new_def DOWN_def UP_def pointAt_def)

text \<open>
  C10. \<open>detectGround\<close> leaves \<open>position.x\<close> and \<open>position.z\<close> as they are; it writes
  \<open>position.y\<close> only when the ray down misses and the ray up hits, and then with the last
  ground height; yaw, pitch, orientation, zoom state, camera, input manager, head bob state
  and the movement flag are untouched; the collider receives the position the body had at
  the call; of the height controller only \<open>grounded\<close> and \<open>lastGroundHeight\<close> can differ.
\<close>

theorem detectGround_frame:
  "(let foot = (position s)\<lparr> vy := vy (position s) - avatarHeight s / 2 \<rparr>;
        down = castRay eng (position s) foot DOWN 1000 True ExcludeDynamicAndSelf;
        up = castRay eng (position s) foot UP (avatarHeight s / 2) True ExcludeDynamicAndSelf;
        s' = detectGround eng s
    in vx (position s') = vx (position s)
     \<and> vz (position s') = vz (position s)
     \<and> vy (position s') = (if down = None \<and> up \<noteq> None then lastGroundHeight (heightController s)
                             else vy (position s))
     \<and> phi s' = phi s \<and> theta s' = theta s \<and> quaternion s' = quaternion s
     \<and> zoomController s' = zoomController s \<and> camera s' = camera s
     \<and> inputManager s' = inputManager s \<and> headBobController s' = headBobController s
     \<and> isMoving2D s' = isMoving2D s
     \<and> avatarHeight s' = avatarHeight s \<and> avatarWidth s' = avatarWidth s
     \<and> colliderTranslation s' = position s
     \<and> heightController s' = (heightController s)
           \<lparr> grounded := grounded (heightController s'),
             lastGroundHeight := lastGroundHeight (heightController s') \<rparr>)"
  by (simp add: detectGround_def Let_def setGrounded_def split: option.splits)

theorem detectGround_frame_witness:
  "vy (position (detectGround flat_ground sunk_character)) = 1
   \<and> vy (position (detectGround flat_ground (character_at 3))) = 3
   \<and> colliderTranslation (detectGround flat_ground (character_at 3)) = \<lparr> vx = 0, vy = 3, vz = 0 \<rparr>"
  using detectGround_frame [of sunk_character flat_ground]
        detectGround_frame [of "character_at 3" flat_ground]
  by (simp add: Let_def flat_ground_def character_at_def sunk_character_def CharacterController_new_def
      HeightController_new_def DOWN_def UP_def)

section \<open>The zoom animation\<close>

lemma zoom_inv_step:
  assumes inv: "zoom_inv zc t" and le: "t \<le> t'"
  shows "zoom_inv (ZoomController_update zl t' dt zc) t'"
proof -
  have mm: "MIN_ZOOM_LEVEL \<le> MAX_ZOOM_LEVEL" by (simp add: MIN_ZOOM_LEVEL_def MAX_ZOOM_LEVEL_def)
  note cl = clamp_range [OF mm, of zl]
  have tt: "t * SCROLL_ANIMATION_SPEED \<le> t' * SCROLL_ANIMATION_SPEED"
    using le by (simp add: SCROLL_ANIMATION_SPEED_def)
  show ?thesis
  proof (cases "lastZoomLevel zc \<noteq> zl")
    case True
    then show ?thesis
      using inv cl by (simp add: zoom_inv_def ZoomController_update_def Let_def easeOutExpo_zero lerp_zero)
  next
    case False
    show ?thesis
    proof (cases "zoomIsAnimating zc")
      case False
      with \<open>\<not> lastZoomLevel zc \<noteq> zl\<close> inv show ?thesis
        by (simp add: zoom_inv_def ZoomController_update_def Let_def)
    next
      case True
      let ?p = "t' * SCROLL_ANIMATION_SPEED - startZoomAnimation zc"
      have p0: "0 \<le> ?p" using inv True tt by (simp add: zoom_inv_def)
      note e = easeOutExpo_range [OF p0]
      have st: "MIN_ZOOM_LEVEL \<le> startingZoom zc" "startingZoom zc \<le> MAX_ZOOM_LEVEL"
        using inv True by (simp_all add: zoom_inv_def)
      have l: "MIN_ZOOM_LEVEL \<le> lerp (startingZoom zc) (clamp zl MIN_ZOOM_LEVEL MAX_ZOOM_LEVEL) (easeOutExpo ?p)
             \<and> lerp (startingZoom zc) (clamp zl MIN_ZOOM_LEVEL MAX_ZOOM_LEVEL) (easeOutExpo ?p) \<le> MAX_ZOOM_LEVEL"
        using e st cl by (intro lerp_between) simp_all
      from \<open>\<not> lastZoomLevel zc \<noteq> zl\<close> True l st inv tt show ?thesis
        by (simp add: zoom_inv_def ZoomController_update_def Let_def)
    qed
  qed
qed

lemma zoom_run_inv:
  "zoom_inv zc t0 \<Longrightarrow> sorted (map (\<lambda>c. fst (snd c)) cs) \<Longrightarrow> \<forall>c\<in>set cs. t0 \<le> fst (snd c)
   \<Longrightarrow> \<exists>t. zoom_inv (zoom_run zc cs) t"
proof (induction cs arbitrary: zc t0)
  case Nil
  then show ?case by auto
next
  case (Cons c cs)
  obtain zl t dt where c: "c = (zl, t, dt)" by (cases c) auto
  have "zoom_inv (ZoomController_update zl t dt zc) t"
    using Cons.prems c by (intro zoom_inv_step [where t = t0]) auto
  moreover have "sorted (map (\<lambda>c. fst (snd c)) cs)" using Cons.prems by simp
  moreover have "\<forall>c\<in>set cs. t \<le> fst (snd c)" using Cons.prems c by auto
  ultimately show ?case using Cons.IH c by simp
qed

lemma zoom_inv_new: "zoom_inv ZoomController_new t"
  by (simp add: zoom_inv_def ZoomController_new_def MIN_ZOOM_LEVEL_def MAX_ZOOM_LEVEL_def)

lemma zoom_run_new_in_range:
  assumes "sorted (map (\<lambda>c. fst (snd c)) cs)"
  shows "MIN_ZOOM_LEVEL \<le> zoom (zoom_run ZoomController_new cs)
       \<and> zoom (zoom_run ZoomController_new cs) \<le> MAX_ZOOM_LEVEL"
proof (cases cs)
  case Nil
  then show ?thesis by (simp add: ZoomController_new_def MIN_ZOOM_LEVEL_def MAX_ZOOM_LEVEL_def)
next
  case (Cons c cs')
  have "\<forall>c'\<in>set cs. fst (snd c) \<le> fst (snd c')" using assms Cons by auto
  from zoom_run_inv [OF zoom_inv_new assms this]
  show ?thesis by (auto simp: zoom_inv_def)
qed

text \<open>
  C4. Starting from the constructor, after any number of the calls of a sequence of
  \<open>update\<close> calls whose timestamps do not decrease, whatever zoom levels are requested,
  the zoom distance lies between \<open>MIN_ZOOM_LEVEL\<close> and \<open>MAX_ZOOM_LEVEL\<close>.
\<close>

theorem zoom_always_in_range:
  assumes "sorted (map (\<lambda>(zoomLevel, timestamp, timeDiff). timestamp) calls)"
  shows "MIN_ZOOM_LEVEL \<le> zoom (zoom_run ZoomController_new (take n calls))
       \<and> zoom (zoom_run ZoomController_new (take n calls)) \<le> MAX_ZOOM_LEVEL"
proof -
  have eq: "(\<lambda>(zoomLevel, timestamp, timeDiff). timestamp) = (\<lambda>c::zoom_call. fst (snd c))"
    by (auto simp: fun_eq_iff)
  have "sorted (map (\<lambda>c. fst (snd c)) (take n calls))"
    using assms unfolding eq by (simp add: sorted_wrt_take flip: take_map)
  then show ?thesis by (rule zoom_run_new_in_range)
qed

theorem zoom_always_in_range_witness:
  "sorted (map (\<lambda>(zoomLevel, timestamp, timeDiff). timestamp)
             [(100 :: real, 0 :: real, 0 :: real), (- 5, 1 / 4, 1 / 4)])
   \<and> MIN_ZOOM_LEVEL \<le> zoom (zoom_run ZoomController_new (take 2 [(100, 0, 0), (- 5, 1 / 4, 1 / 4)]))
   \<and> zoom (zoom_run ZoomController_new (take 2 [(100, 0, 0), (- 5, 1 / 4, 1 / 4)])) \<le> MAX_ZOOM_LEVEL"
  using zoom_always_in_range [of "[(100, 0, 0), (- 5, 1 / 4, 1 / 4)]" 2]
  by simp

text \<open>
  C5. When the requested zoom level differs from the last requested one, the zoom value
  after the call of \<open>update\<close> equals the zoom value before it, and the animation restarts
  from that value: the starting zoom is the zoom before the call, the animation starts at
  the time of the call (the timestamp times the animation speed), it is running, and the
  requested level is recorded as the last one.
\<close>

theorem zoom_no_jump_on_target_change:
  assumes "zoomLevel \<noteq> lastZoomLevel zc"
  shows "zoom (ZoomController_update zoomLevel timestamp timeDiff zc) = zoom zc
       \<and> startingZoom (ZoomController_update zoomLevel timestamp timeDiff zc) = zoom zc
       \<and> startZoomAnimation (ZoomController_update zoomLevel timestamp timeDiff zc)
           = timestamp * SCROLL_ANIMATION_SPEED
       \<and> zoomIsAnimating (ZoomController_update zoomLevel timestamp timeDiff zc) = True
       \<and> lastZoomLevel (ZoomController_update zoomLevel timestamp timeDiff zc) = zoomLevel"
  using assms
  by (simp add: ZoomController_update_def Let_def easeOutExpo_zero lerp_zero)

theorem zoom_no_jump_on_target_change_witness:
  "(7 :: real) \<noteq> lastZoomLevel (zoom_run ZoomController_new [(3 / 2, 0, 0), (3 / 2, 1 / 20, 1 / 20)])
   \<and> zoom (zoom_run ZoomController_new [(3 / 2, 0, 0), (3 / 2, 1 / 20, 1 / 20)]) = 1501 / 2000
   \<and> zoom (ZoomController_update 7 (1 / 10) (1 / 20)
        (zoom_run ZoomController_new [(3 / 2, 0, 0), (3 / 2, 1 / 20, 1 / 20)])) = 1501 / 2000
   \<and> startingZoom (ZoomController_update 7 (1 / 10) (1 / 20)
        (zoom_run ZoomController_new [(3 / 2, 0, 0), (3 / 2, 1 / 20, 1 / 20)])) = 1501 / 2000
   \<and> startZoomAnimation (ZoomController_update 7 (1 / 10) (1 / 20)
        (zoom_run ZoomController_new [(3 / 2, 0, 0), (3 / 2, 1 / 20, 1 / 20)])) = 1 / 5
   \<and> zoomIsAnimating (ZoomController_update 7 (1 / 10) (1 / 20)
        (zoom_run ZoomController_new [(3 / 2, 0, 0), (3 / 2, 1 / 20, 1 / 20)])) = True"
proof -
  let ?zc = "zoom_run ZoomController_new [(3 / 2, 0, 0), (3 / 2, 1 / 20, 1 / 20)]"
  have l: "lastZoomLevel ?zc = 3 / 2"
    by (simp add: ZoomController_update_def Let_def)
  have z: "zoom ?zc = 1501 / 2000"
    by (simp add: ZoomController_update_def ZoomController_new_def Let_def easeOutExpo_def lerp_def
        clamp_def MIN_ZOOM_LEVEL_def MAX_ZOOM_LEVEL_def SCROLL_ANIMATION_SPEED_def powr_minus_divide)
  have h: "(7 :: real) \<noteq> lastZoomLevel ?zc"
    unfolding l by simp
  from zoom_no_jump_on_target_change [OF h, of "1 / 10" "1 / 20"] h z show ?thesis
    by (simp add: SCROLL_ANIMATION_SPEED_def)
qed

text \<open>
  C6 at a concrete run. The target 1.5 is requested at timestamp 0 and again at timestamps
  1 and 2. At timestamp 1 the progress is 2: the animation is marked complete, and the zoom
  is \<open>lerp 0.001 1.5 (easeOutExpo 2)\<close>, short of the target by \<open>1.499 / 2 ^ 20\<close>. The
  call at timestamp 2 holds that value, not the target.
\<close>

theorem zoom_settles_short_of_target:
  "zoomIsAnimating (zoom_run ZoomController_new [(3 / 2, 0, 0), (3 / 2, 1, 1)]) = False
   \<and> zoom (zoom_run ZoomController_new [(3 / 2, 0, 0), (3 / 2, 1, 1)]) = 3 / 2 - (1499 / 1000) / 2 ^ 20
   \<and> zoom (zoom_run ZoomController_new [(3 / 2, 0, 0), (3 / 2, 1, 1), (3 / 2, 2, 1)])
       = 3 / 2 - (1499 / 1000) / 2 ^ 20
   \<and> zoom (zoom_run ZoomController_new [(3 / 2, 0, 0), (3 / 2, 1, 1), (3 / 2, 2, 1)])
       \<noteq> clamp (3 / 2) MIN_ZOOM_LEVEL MAX_ZOOM_LEVEL"
  by (simp add: ZoomController_update_def ZoomController_new_def Let_def easeOutExpo_def lerp_def
      clamp_def MIN_ZOOM_LEVEL_def MAX_ZOOM_LEVEL_def SCROLL_ANIMATION_SPEED_def powr_minus_divide)

section \<open>The accumulated scroll value\<close>

lemma dispatch_wheel_value:
  "mouseWheelDelta (currentMouse (dispatch im e)) =
     (case e of Wheel dy \<Rightarrow> mouseWheelDelta (currentMouse (onMouseWheel dy im))
      | _ \<Rightarrow> mouseWheelDelta (currentMouse im))"
  by (cases e) (simp_all add: onMouseMove_def onMouseDown_def onMouseUp_def onKeyDown_def
      onKeyUp_def setPointerLocked_def setButton_def)

lemma wheel_up_bounds:
  "(w::real) \<le> 20 \<Longrightarrow> 1 / 1000 \<le> max (w - 3 / 2) (1 / 1000) \<and> max (w - 3 / 2) (1 / 1000) \<le> 20"
  unfolding max_def by simp

lemma wheel_down_bounds:
  "(0::real) \<le> w \<Longrightarrow> 1 / 1000 \<le> min (w + 3 / 2) 20 \<and> min (w + 3 / 2) 20 \<le> 20"
  unfolding min_def by simp

lemma onMouseWheel_value:
  "mouseWheelDelta (currentMouse (onMouseWheel dy im)) =
     (if pointerLocked im \<and> dy < 0 then max (mouseWheelDelta (currentMouse im) - 3 / 2) (1 / 1000)
      else if pointerLocked im \<and> dy > 0 then min (mouseWheelDelta (currentMouse im) + 3 / 2) 20
      else mouseWheelDelta (currentMouse im))"
  by (simp add: onMouseWheel_def zoom_consts)

lemma onMouseWheel_ok: "wheel_ok im \<Longrightarrow> wheel_ok (onMouseWheel dy im)"
  unfolding wheel_ok_def onMouseWheel_value zoom_consts
  using wheel_up_bounds [of "mouseWheelDelta (currentMouse im)"]
        wheel_down_bounds [of "mouseWheelDelta (currentMouse im)"]
  by (simp del: divide_le_eq_numeral1 le_divide_eq_numeral1)

lemma onMouseWheel_zero:
  "mouseWheelDelta (currentMouse im) = 0 \<Longrightarrow>
   mouseWheelDelta (currentMouse (onMouseWheel dy im)) = 0 \<or> wheel_ok (onMouseWheel dy im)"
  unfolding wheel_ok_def onMouseWheel_value zoom_consts
  by simp

lemma onMouseWheel_effective:
  "mouseWheelDelta (currentMouse im) = 0 \<or> wheel_ok im \<Longrightarrow> pointerLocked im \<Longrightarrow> dy \<noteq> 0 \<Longrightarrow>
   wheel_ok (onMouseWheel dy im)"
  unfolding wheel_ok_def onMouseWheel_value zoom_consts
  using wheel_up_bounds [of "mouseWheelDelta (currentMouse im)"]
        wheel_down_bounds [of "mouseWheelDelta (currentMouse im)"]
  by (auto simp del: divide_le_eq_numeral1 le_divide_eq_numeral1)

lemma dispatch_ok: "wheel_ok im \<Longrightarrow> wheel_ok (dispatch im e)"
  using onMouseWheel_ok [of im] dispatch_wheel_value [of im e]
  by (cases e) (simp_all add: wheel_ok_def)

lemma dispatch_zero_or_ok:
  "mouseWheelDelta (currentMouse im) = 0 \<or> wheel_ok im \<Longrightarrow>
   mouseWheelDelta (currentMouse (dispatch im e)) = 0 \<or> wheel_ok (dispatch im e)"
  using onMouseWheel_ok [of im] onMouseWheel_zero [of im] dispatch_wheel_value [of im e]
  by (cases e) (auto simp add: wheel_ok_def)

lemma foldl_dispatch_ok: "wheel_ok im \<Longrightarrow> wheel_ok (foldl dispatch im evs)"
  by (induction evs arbitrary: im) (simp_all add: dispatch_ok)

lemma foldl_dispatch_zero_or_ok:
  "mouseWheelDelta (currentMouse im) = 0 \<or> wheel_ok im \<Longrightarrow>
   mouseWheelDelta (currentMouse (foldl dispatch im evs)) = 0 \<or> wheel_ok (foldl dispatch im evs)"
proof (induction evs arbitrary: im)
  case Nil
  then show ?case by simp
next
  case (Cons e evs)
  from dispatch_zero_or_ok [OF Cons.prems, of e] show ?case
    using Cons.IH [of "dispatch im e"] by simp
qed

text \<open>
  C7, as the claim states it, fails. The constructor sets the scroll value to 0, below
  \<open>MIN_ZOOM_LEVEL\<close>, and a wheel event that arrives while the pointer is not locked
  leaves it there.
\<close>

theorem wheel_initially_below_min:
  "mouseWheelDelta (currentMouse (events_run InputManager_new [])) = 0
   \<and> mouseWheelDelta (currentMouse (events_run InputManager_new [Wheel 100])) = 0
   \<and> \<not> MIN_ZOOM_LEVEL \<le> mouseWheelDelta (currentMouse (events_run InputManager_new [Wheel 100]))"
  by (simp add: events_run_def InputManager_new_def onMouseWheel_def MIN_ZOOM_LEVEL_def)

text \<open>
  C7, amended. In every state reachable from the constructor by input events, the scroll
  value is 0 or lies between \<open>MIN_ZOOM_LEVEL\<close> and \<open>MAX_ZOOM_LEVEL\<close>; and once a wheel
  event with a non-zero \<open>deltaY\<close> has arrived while the pointer was locked, it lies between
  \<open>MIN_ZOOM_LEVEL\<close> and \<open>MAX_ZOOM_LEVEL\<close> after every later event.
\<close>

theorem wheel_zero_or_in_range:
  "(mouseWheelDelta (currentMouse (events_run InputManager_new evs)) = 0
    \<or> (MIN_ZOOM_LEVEL \<le> mouseWheelDelta (currentMouse (events_run InputManager_new evs))
       \<and> mouseWheelDelta (currentMouse (events_run InputManager_new evs)) \<le> MAX_ZOOM_LEVEL))
   \<and> (pointerLocked (events_run InputManager_new evs) \<and> deltaY \<noteq> 0 \<longrightarrow>
       MIN_ZOOM_LEVEL \<le> mouseWheelDelta (currentMouse (events_run InputManager_new (evs @ Wheel deltaY # evs')))
       \<and> mouseWheelDelta (currentMouse (events_run InputManager_new (evs @ Wheel deltaY # evs'))) \<le> MAX_ZOOM_LEVEL)"
proof -
  have init: "mouseWheelDelta (currentMouse InputManager_new) = 0 \<or> wheel_ok InputManager_new"
    by (simp add: InputManager_new_def)
  note a = foldl_dispatch_zero_or_ok [OF init, of evs]
  have b: "wheel_ok (foldl dispatch InputManager_new (evs @ Wheel deltaY # evs'))"
    if "pointerLocked (foldl dispatch InputManager_new evs)" "deltaY \<noteq> 0"
    using onMouseWheel_effective [OF a that] by (simp add: foldl_dispatch_ok)
  from a b show ?thesis by (simp add: events_run_def wheel_ok_def)
qed

theorem wheel_zero_or_in_range_witness:
  "pointerLocked (events_run InputManager_new [PointerLockChange True]) \<and> (- 1 :: real) \<noteq> 0
   \<and> mouseWheelDelta (currentMouse (events_run InputManager_new
         ([PointerLockChange True] @ Wheel (- 1) # [Wheel 3]))) = 1501 / 1000
   \<and> MIN_ZOOM_LEVEL \<le> mouseWheelDelta (currentMouse (events_run InputManager_new
         ([PointerLockChange True] @ Wheel (- 1) # [Wheel 3])))"
  using wheel_zero_or_in_range [of "[PointerLockChange True]" "- 1" "[Wheel 3]"]
  by (simp add: events_run_def InputManager_new_def setPointerLocked_def onMouseWheel_def zoom_consts)

section \<open>Rotation\<close>

lemma updateRotation_theta:
  "- (pi / 2) \<le> theta (updateRotation eng s) \<and> theta (updateRotation eng s) \<le> pi / 2"
proof -
  have t: "theta (updateRotation eng s)
             = clamp (theta s + - (mouseYDelta (currentMouse (inputManager s)) / renderHeight eng) * (5 / 2))
                 (- pi / 2) (pi / 2)"
    by (simp add: updateRotation_def Let_def)
  have "- pi / 2 \<le> pi / 2" by simp
  from clamp_range [OF this] show ?thesis unfolding t by simp
qed

lemma updateRotation_phi:
  "phi (updateRotation eng s)
     = phi s - (5 / 2) * (mouseXDelta (currentMouse (inputManager s)) / renderWidth eng)"
  by (simp add: updateRotation_def Let_def)

lemma rotation_run_snoc:
  "rotation_run s (cs @ [(eng, im)]) = updateRotation eng ((rotation_run s cs)\<lparr> inputManager := im \<rparr>)"
  by (induction s cs rule: rotation_run.induct) simp_all

lemma rotation_run_phi:
  "phi (rotation_run s calls)
     = phi s - (5 / 2) * (\<Sum>(eng, im)\<leftarrow>calls. mouseXDelta (currentMouse im) / renderWidth eng)"
  by (induction s calls rule: rotation_run.induct) (simp_all add: updateRotation_phi algebra_simps)

text \<open>
  C8. After every call of a sequence of \<open>updateRotation\<close> calls, with any mouse deltas and
  any viewport of non-zero width and height, the pitch \<open>theta\<close> lies between \<open>-\<pi>/2\<close> and
  \<open>\<pi>/2\<close>. The yaw \<open>phi\<close> is the initial yaw minus 2.5 times the sum of the mouse-X
  deltas, each divided by the viewport width, with no clamp: whatever the bound, one more
  call takes the yaw beyond it.
\<close>

theorem pitch_clamped_yaw_unbounded:
  assumes "calls \<noteq> []"
    and "\<forall>(eng, im)\<in>set calls. renderWidth eng \<noteq> 0 \<and> renderHeight eng \<noteq> 0"
  shows "- (pi / 2) \<le> theta (rotation_run s calls) \<and> theta (rotation_run s calls) \<le> pi / 2
       \<and> phi (rotation_run s calls)
           = phi s - (5 / 2) * (\<Sum>(eng, im)\<leftarrow>calls. mouseXDelta (currentMouse im) / renderWidth eng)
       \<and> (\<exists>eng im. renderWidth eng \<noteq> 0 \<and> renderHeight eng \<noteq> 0
             \<and> B < phi (rotation_run s (calls @ [(eng, im)])))"
proof -
  obtain cs eng im where c: "calls = cs @ [(eng, im)]"
    using assms(1) by (cases calls rule: rev_cases) auto
  have th: "- (pi / 2) \<le> theta (rotation_run s calls) \<and> theta (rotation_run s calls) \<le> pi / 2"
    unfolding c rotation_run_snoc by (rule updateRotation_theta)
  let ?dx = "(phi (rotation_run s calls) - B - 1) * 320"
  have "phi (rotation_run s (calls @ [(flat_ground, mouse_moved ?dx 0)])) = B + 1"
    by (simp add: flat_ground_def mouse_moved_def rotation_run_snoc updateRotation_phi
        InputManager_new_def field_simps)
  then have "renderWidth flat_ground \<noteq> 0 \<and> renderHeight flat_ground \<noteq> 0
      \<and> B < phi (rotation_run s (calls @ [(flat_ground, mouse_moved ?dx 0)]))"
    by (simp add: flat_ground_def)
  then have "\<exists>eng im. renderWidth eng \<noteq> 0 \<and> renderHeight eng \<noteq> 0
      \<and> B < phi (rotation_run s (calls @ [(eng, im)]))"
    by blast
  with th rotation_run_phi [of s calls] show ?thesis by simp
qed

theorem pitch_clamped_yaw_unbounded_witness:
  "[(flat_ground, mouse_moved 320 9000), (flat_ground, mouse_moved 640 9000)] \<noteq> []
   \<and> renderWidth flat_ground \<noteq> 0 \<and> renderHeight flat_ground \<noteq> 0
   \<and> - (pi / 2) \<le> theta (rotation_run (character_at 1)
         [(flat_ground, mouse_moved 320 9000), (flat_ground, mouse_moved 640 9000)])
   \<and> phi (rotation_run (character_at 1)
         [(flat_ground, mouse_moved 320 9000), (flat_ground, mouse_moved 640 9000)]) = - 3"
  using pitch_clamped_yaw_unbounded
          [of "[(flat_ground, mouse_moved 320 9000), (flat_ground, mouse_moved 640 9000)]"
              "character_at 1" 0]
  by (simp add: flat_ground_def mouse_moved_def character_at_def CharacterController_new_def
      InputManager_new_def)

section \<open>The frame update\<close>

lemma applyQuaternion_about_UP_vy:
  "vy v = 0 \<Longrightarrow> vy (applyQuaternion v (setFromAxisAngle UP a)) = 0"
  by (simp add: applyQuaternion_def setFromAxisAngle_def UP_def Let_def)

lemma updateTranslation_vy:
  "vy (position (updateTranslation dt s)) = vy (position s) + movePerFrame (heightController s)"
proof -
  have f: "vy (applyQuaternion FORWARD (setFromAxisAngle UP (phi s + HALF_PI))) = 0"
    by (rule applyQuaternion_about_UP_vy) (simp add: FORWARD_def)
  have l: "vy (applyQuaternion LEFT (setFromAxisAngle UP (phi s + HALF_PI))) = 0"
    by (rule applyQuaternion_about_UP_vy) (simp add: LEFT_def)
  show ?thesis
    by (simp add: updateTranslation_def Let_def vec3_add_def multiplyScalar_def f l setJumpFactor_def)
qed

lemma updateTranslation_height:
  "heightController (updateTranslation dt s)
     = (if grounded (heightController s)
        then setJumpFactor (runActionByKey (inputManager s) KEYS_space 1 0) (heightController s)
        else heightController s)"
  by (simp add: updateTranslation_def Let_def)

lemma updateRotation_frame:
  "position (updateRotation eng s) = position s"
  "heightController (updateRotation eng s) = heightController s"
  "inputManager (updateRotation eng s) = inputManager s"
  "zoomController (updateRotation eng s) = zoomController s"
  by (simp_all add: updateRotation_def Let_def)

lemma updateTranslation_frame:
  "inputManager (updateTranslation dt s) = inputManager s"
  "zoomController (updateTranslation dt s) = zoomController s"
  by (simp_all add: updateTranslation_def Let_def)

lemma updateGravity_frame:
  "position (updateGravity t dt s) = position s"
  "inputManager (updateGravity t dt s) = inputManager s"
  "zoomController (updateGravity t dt s) = zoomController s"
  "heightController (updateGravity t dt s) = HeightController_update t dt (heightController s)"
  by (simp_all add: updateGravity_def)

lemma HeightController_update_frame:
  "grounded (HeightController_update t dt hc) = grounded hc"
  "lastGroundHeight (HeightController_update t dt hc) = lastGroundHeight hc"
  by (simp_all add: HeightController_update_def Let_def)

lemma detectGround_frame_aux:
  "inputManager (detectGround eng s) = inputManager s"
  "zoomController (detectGround eng s) = zoomController s"
  "movePerFrame (heightController (detectGround eng s)) = movePerFrame (heightController s)"
  "vy (position (detectGround eng s)) = vy (position s)
   \<or> vy (position (detectGround eng s)) = lastGroundHeight (heightController s)"
  by (simp_all add: detectGround_def Let_def setGrounded_def split: option.splits)

lemma updateZoom_frame:
  "position (updateZoom t dt s) = position s"
  "heightController (updateZoom t dt s) = heightController s"
  "inputManager (updateZoom t dt s) = inputManager s"
  "zoomController (updateZoom t dt s)
     = ZoomController_update (mouseWheelDelta (currentMouse (inputManager s))) t dt (zoomController s)"
  by (simp_all add: updateZoom_def)

lemma updateCamera_frame:
  "position (updateCamera eng t dt s) = position s"
  "heightController (updateCamera eng t dt s) = heightController s"
  "inputManager (updateCamera eng t dt s) = inputManager s"
  "zoomController (updateCamera eng t dt s) = zoomController s"
  by (simp_all add: updateCamera_def Let_def split: prod.splits option.splits)

lemma update_projections:
  "position (CharacterController_update eng t dt s)
     = position (detectGround eng (updateGravity t dt (updateTranslation dt (updateRotation eng s))))"
  "heightController (CharacterController_update eng t dt s)
     = heightController (detectGround eng (updateGravity t dt (updateTranslation dt (updateRotation eng s))))"
  "zoomController (CharacterController_update eng t dt s)
     = ZoomController_update (mouseWheelDelta (currentMouse (inputManager s))) t dt (zoomController s)"
  "inputManager (CharacterController_update eng t dt s) = InputManager_update (inputManager s)"
  by (simp_all add: CharacterController_update_def Let_def updateCamera_frame updateZoom_frame
      detectGround_frame_aux updateGravity_frame updateTranslation_frame updateRotation_frame)

text \<open>
  C2, as the claim states it, fails. A fresh controller at height 10 in an empty world is
  updated at timestamp 1. The vertical motion step computes the delta -4.905 for this
  frame, and \<open>position.y\<close> is still 10 after the frame: the delta is not added in the
  frame that computes it.
\<close>

theorem vertical_delta_lags_one_frame:
  "vy (position (CharacterController_update empty_world 1 (1 / 60) (character_at 10))) = 10
   \<and> movePerFrame (heightController (CharacterController_update empty_world 1 (1 / 60) (character_at 10)))
       = - (981 / 200)
   \<and> vy (position (CharacterController_update empty_world 1 (1 / 60) (character_at 10)))
       \<noteq> vy (position (character_at 10))
         + movePerFrame (heightController (CharacterController_update empty_world 1 (1 / 60) (character_at 10)))"
proof -
  have p: "vy (position (CharacterController_update empty_world 1 (1 / 60) (character_at 10))) = 10"
    unfolding update_projections
    using detectGround_frame_aux(4) [of empty_world "updateGravity 1 (1 / 60)
        (updateTranslation (1 / 60) (updateRotation empty_world (character_at 10)))"]
    apply (simp add: updateGravity_frame updateTranslation_vy updateRotation_frame)
    apply (simp add: detectGround_def Let_def empty_world_def updateGravity_def updateTranslation_vy updateRotation_frame)
    apply (simp add: character_at_def CharacterController_new_def HeightController_new_def)
    done
  have m: "movePerFrame (heightController (CharacterController_update empty_world 1 (1 / 60) (character_at 10)))
       = - (981 / 200)"
    unfolding update_projections detectGround_frame_aux
    by (simp add: updateGravity_frame updateTranslation_height updateRotation_frame character_at_def
        CharacterController_new_def HeightController_new_def HeightController_update_def Let_def
        GRAVITY_y_def lerp_def)
  show ?thesis unfolding p m by (simp add: character_at_def CharacterController_new_def)
qed

text \<open>
  C2, amended. A frame runs rotation, translation, vertical motion, ground detection,
  zoom, camera placement and the reset of the mouse deltas, in this order. The translation
  step adds to \<open>position.y\<close> the \<open>movePerFrame\<close> that the vertical motion step of the
  previous frame left in the height controller. The vertical motion step does not change
  the position: it recomputes \<open>movePerFrame\<close>, from the grounded flag that the ground
  detection of the previous frame left (the jump factor being taken from the space key
  when that flag is set). Ground detection may then put \<open>position.y\<close> at the last
  ground height, and its grounded flag is the one the frame ends with. The zoom step
  receives the scroll value, and the frame ends with both mouse deltas at 0. The viewport
  has a non-zero width and height: the rotation step divides by them.
\<close>

theorem update_frame_sequence:
  assumes "renderWidth eng \<noteq> 0" and "renderHeight eng \<noteq> 0"
  shows "CharacterController_update eng t dt s
     = (let s6 = updateCamera eng t dt (updateZoom t dt (detectGround eng
                   (updateGravity t dt (updateTranslation dt (updateRotation eng s)))))
        in s6\<lparr> inputManager := InputManager_update (inputManager s6) \<rparr>)
   \<and> vy (position (updateTranslation dt s)) = vy (position s) + movePerFrame (heightController s)
   \<and> position (updateGravity t dt s) = position s
   \<and> heightController (updateGravity t dt (updateTranslation dt (updateRotation eng s)))
       = HeightController_update t dt
           (if grounded (heightController s)
            then setJumpFactor (runActionByKey (inputManager s) KEYS_space 1 0) (heightController s)
            else heightController s)
   \<and> grounded (heightController (updateGravity t dt (updateTranslation dt (updateRotation eng s))))
       = grounded (heightController s)
   \<and> (vy (position (CharacterController_update eng t dt s))
         = vy (position s) + movePerFrame (heightController s)
      \<or> vy (position (CharacterController_update eng t dt s)) = lastGroundHeight (heightController s))
   \<and> grounded (heightController (CharacterController_update eng t dt s))
       = grounded (heightController (detectGround eng
           (updateGravity t dt (updateTranslation dt (updateRotation eng s)))))
   \<and> movePerFrame (heightController (CharacterController_update eng t dt s))
       = movePerFrame (HeightController_update t dt
           (if grounded (heightController s)
            then setJumpFactor (runActionByKey (inputManager s) KEYS_space 1 0) (heightController s)
            else heightController s))
   \<and> zoomController (CharacterController_update eng t dt s)
       = ZoomController_update (mouseWheelDelta (currentMouse (inputManager s))) t dt (zoomController s)
   \<and> mouseXDelta (currentMouse (inputManager (CharacterController_update eng t dt s))) = 0
   \<and> mouseYDelta (currentMouse (inputManager (CharacterController_update eng t dt s))) = 0"
proof -
  let ?s2 = "updateTranslation dt (updateRotation eng s)"
  let ?s3 = "updateGravity t dt ?s2"
  let ?hc = "if grounded (heightController s)
            then setJumpFactor (runActionByKey (inputManager s) KEYS_space 1 0) (heightController s)
            else heightController s"
  have hc2: "heightController ?s2 = ?hc"
    by (simp add: updateTranslation_height updateRotation_frame)
  have hc3: "heightController ?s3 = HeightController_update t dt ?hc"
    by (simp only: updateGravity_frame hc2)
  have g3: "grounded (heightController ?s3) = grounded (heightController s)"
    unfolding hc3 HeightController_update_frame by (simp add: setJumpFactor_def)
  have lg3: "lastGroundHeight (heightController ?s3) = lastGroundHeight (heightController s)"
    unfolding hc3 HeightController_update_frame by (simp add: setJumpFactor_def)
  have y3: "vy (position ?s3) = vy (position s) + movePerFrame (heightController s)"
    by (simp add: updateGravity_frame updateTranslation_vy updateRotation_frame)
  have y: "vy (position (CharacterController_update eng t dt s))
             = vy (position s) + movePerFrame (heightController s)
         \<or> vy (position (CharacterController_update eng t dt s)) = lastGroundHeight (heightController s)"
    using detectGround_frame_aux(4) [of eng ?s3] unfolding update_projections y3 lg3 .
  have m: "movePerFrame (heightController (CharacterController_update eng t dt s))
             = movePerFrame (HeightController_update t dt ?hc)"
    unfolding update_projections detectGround_frame_aux hc3 ..
  have seq: "CharacterController_update eng t dt s
     = (let s6 = updateCamera eng t dt (updateZoom t dt (detectGround eng ?s3))
        in s6\<lparr> inputManager := InputManager_update (inputManager s6) \<rparr>)"
    by (simp add: CharacterController_update_def Let_def)
  have i: "mouseXDelta (currentMouse (inputManager (CharacterController_update eng t dt s))) = 0"
          "mouseYDelta (currentMouse (inputManager (CharacterController_update eng t dt s))) = 0"
    unfolding update_projections by (simp_all add: InputManager_update_def)
  show ?thesis
    using seq updateTranslation_vy [of dt s] updateGravity_frame(1) [of t dt s] hc3 g3 y m
      update_projections(2,3) [of eng t dt s] i
    by (simp only: simp_thms)
qed

theorem update_frame_sequence_witness:
  "renderWidth empty_world \<noteq> 0 \<and> renderHeight empty_world \<noteq> 0
   \<and> vy (position (updateTranslation (1 / 60) falling_character)) = 99 / 10
   \<and> position (updateGravity 1 (1 / 60) falling_character) = \<lparr> vx = 0, vy = 10, vz = 0 \<rparr>
   \<and> mouseXDelta (currentMouse (inputManager
         (CharacterController_update empty_world 1 (1 / 60) falling_character))) = 0
   \<and> grounded (heightController (updateGravity 1 (1 / 60)
         (updateTranslation (1 / 60) (updateRotation empty_world falling_character)))) = False"
proof -
  have w: "renderWidth empty_world \<noteq> 0" and h: "renderHeight empty_world \<noteq> 0"
    by (simp_all add: empty_world_def)
  note t = update_frame_sequence [OF w h, of 1 "1 / 60" falling_character]
  have a: "vy (position (updateTranslation (1 / 60) falling_character))
             = vy (position falling_character) + movePerFrame (heightController falling_character)"
    using t by (elim conjE)
  have b: "position (updateGravity 1 (1 / 60) falling_character) = position falling_character"
    using t by (elim conjE)
  have c: "mouseXDelta (currentMouse (inputManager
         (CharacterController_update empty_world 1 (1 / 60) falling_character))) = 0"
    using t by (elim conjE)
  have d: "grounded (heightController (updateGravity 1 (1 / 60)
         (updateTranslation (1 / 60) (updateRotation empty_world falling_character))))
           = grounded (heightController falling_character)"
    using t by (elim conjE)
  show ?thesis
    unfolding a b c d
    using w h
    by (simp add: falling_character_def character_at_def CharacterController_new_def
        HeightController_new_def)
qed

section \<open>Registering a physics object\<close>



end
